theory Spec2Isabelle
  imports Main "HOL-Library.AList" "HOL-Library.Sublist" "HOL-Library.Word"
    "HOL-Library.List_Lexorder"
begin

section \<open>Data model (src/types.ts)\<close>

text \<open>
  \<^verbatim>\<open>Role\<close> and \<^verbatim>\<open>ChoreStatus\<close> are unions of string literals; each is a datatype with
  one constructor per literal.
\<close>

datatype Role = Parent | Child

datatype ChoreStatus = Pending | Completed

text \<open>A JavaScript string: a sequence of 16-bit code units (UTF-16).\<close>

type_synonym jsstring = "16 word list"

record Profile =
  displayName :: jsstring
  familyCode :: jsstring
  role :: Role

text \<open>
  A JavaScript property that may be missing or \<^verbatim>\<open>null\<close>. \<^verbatim>\<open>Undefined\<close> is the value read
  from a property that is not there.
\<close>

datatype 'a nullable = Undefined | Null | Val 'a

text \<open>
  The \<^verbatim>\<open>Chore\<close> type. The field \<^verbatim>\<open>id\<close> is \<open>chore_id\<close> and \<^verbatim>\<open>familyCode\<close> is
  \<open>chore_familyCode\<close> here (the first would hide the identity function, the second is a
  field of \<open>Profile\<close> too). The timestamps (\<^verbatim>\<open>unknown\<close> in the source) are server
  clock readings, natural numbers.
\<close>

record Chore =
  chore_id :: jsstring
  title :: jsstring
  assignedTo :: jsstring
  chore_familyCode :: jsstring
  status :: ChoreStatus
  photoUrl :: "jsstring nullable"
  completedBy :: "jsstring nullable"
  createdAt :: "nat nullable"
  completedAt :: "nat nullable"

section \<open>JavaScript strings\<close>

text \<open>
  A string literal of the source (ASCII text) as a JavaScript string: one code unit for
  each character.
\<close>

definition js :: "string \<Rightarrow> jsstring" where
  "js s = map (\<lambda>c. of_nat (of_char c)) s"

text \<open>
  \<^verbatim>\<open>String.prototype.trim\<close> removes the white space and the line terminators of
  ECMAScript at both ends of a string: tab, line feed, vertical tab, form feed, carriage
  return, space, U+00A0, U+1680, U+2000 to U+200A, U+2028, U+2029, U+202F, U+205F,
  U+3000 and U+FEFF (the class Zs of Unicode since version 6.3). Each is one code unit.
\<close>

definition is_space :: "16 word \<Rightarrow> bool" where
  "is_space c =
     (c \<in> {0x0009, 0x000A, 0x000B, 0x000C, 0x000D, 0x0020, 0x00A0, 0x1680,
            0x2028, 0x2029, 0x202F, 0x205F, 0x3000, 0xFEFF}
      \<or> (0x2000 \<le> c \<and> c \<le> 0x200A))"

definition trim :: "jsstring \<Rightarrow> jsstring" where
  "trim s = rev (dropWhile is_space (rev (dropWhile is_space s)))"

text \<open>
  What "trimmed" means, said without \<open>trim\<close>: \<open>t\<close> is \<open>s\<close> trimmed when \<open>s\<close> is \<open>t\<close> between
  two runs of white space, and \<open>t\<close> neither starts nor ends with white space.
\<close>

definition trimmed_of :: "jsstring \<Rightarrow> jsstring \<Rightarrow> bool" where
  "trimmed_of s t =
     (\<exists>l r. s = l @ t @ r \<and> list_all is_space l \<and> list_all is_space r
        \<and> (t = [] \<or> (\<not> is_space (hd t) \<and> \<not> is_space (last t))))"

text \<open>
  \<^verbatim>\<open>String.prototype.toLowerCase\<close> follows the case mappings of the Unicode Character
  Database of the JavaScript engine, which are no part of this repository. It is a
  parameter, named \<open>toLowerCase\<close>, of the one function of the source that calls it on
  data (\<open>childChores\<close>), and what is proved of that function holds for every such
  mapping.
\<close>

text \<open>The decimal digits of a number, as a template literal prints an integer.\<close>

fun string_of_nat :: "nat \<Rightarrow> jsstring" where
  "string_of_nat n =
     (if n < 10 then [of_nat (48 + n)]
      else string_of_nat (n div 10) @ [of_nat (48 + n mod 10)])"

declare string_of_nat.simps [simp del]

text \<open>The operator \<^verbatim>\<open>a ?? b\<close>: \<open>b\<close> when \<open>a\<close> is \<^verbatim>\<open>undefined\<close> or \<^verbatim>\<open>null\<close>.\<close>

fun nullish_or :: "'a nullable \<Rightarrow> 'a \<Rightarrow> 'a" where
  "nullish_or (Val v) d = v"
| "nullish_or Undefined d = d"
| "nullish_or Null d = d"

section \<open>The remote collection and the effects of the application\<close>

text \<open>
  The data of a document of the collection \<^verbatim>\<open>chores\<close>, as \<^verbatim>\<open>docSnap.data()\<close> returns
  it. The store enforces no schema, so every field may be missing or null; a field that
  is there has the type the \<^verbatim>\<open>Chore\<close> declaration gives it (what the cast
  \<^verbatim>\<open>as Chore\<close> of the snapshot handler takes for granted). The document's id is its key
  in the collection, which is a list of pairs in the order the documents were added.
\<close>

record DocumentData =
  data_title :: "jsstring nullable"
  data_assignedTo :: "jsstring nullable"
  data_familyCode :: "jsstring nullable"
  data_status :: "ChoreStatus nullable"
  data_photoUrl :: "jsstring nullable"
  data_completedBy :: "jsstring nullable"
  data_createdAt :: "nat nullable"
  data_completedAt :: "nat nullable"

type_synonym collection = "(jsstring \<times> DocumentData) list"

text \<open>
  The argument of \<^verbatim>\<open>updateDoc\<close>: for each field, \<open>None\<close> when the update does not mention
  it, and the new value otherwise. \<open>merge_fields\<close> is what the store does with it: the
  fields mentioned are overwritten and the others are kept.
\<close>

record FieldUpdate =
  upd_title :: "jsstring nullable option"
  upd_assignedTo :: "jsstring nullable option"
  upd_familyCode :: "jsstring nullable option"
  upd_status :: "ChoreStatus nullable option"
  upd_photoUrl :: "jsstring nullable option"
  upd_completedBy :: "jsstring nullable option"
  upd_createdAt :: "nat nullable option"
  upd_completedAt :: "nat nullable option"

fun override :: "'a \<Rightarrow> 'a option \<Rightarrow> 'a" where
  "override old None = old"
| "override old (Some new) = new"

definition merge_fields :: "DocumentData \<Rightarrow> FieldUpdate \<Rightarrow> DocumentData" where
  "merge_fields d u =
     \<lparr> data_title = override (data_title d) (upd_title u),
       data_assignedTo = override (data_assignedTo d) (upd_assignedTo u),
       data_familyCode = override (data_familyCode d) (upd_familyCode u),
       data_status = override (data_status d) (upd_status u),
       data_photoUrl = override (data_photoUrl d) (upd_photoUrl u),
       data_completedBy = override (data_completedBy d) (upd_completedBy u),
       data_createdAt = override (data_createdAt d) (upd_createdAt u),
       data_completedAt = override (data_completedAt d) (upd_completedAt u) \<rparr>"

text \<open>
  \<^verbatim>\<open>addDoc\<close> stores the data under the id the store generated for it (at the end of the
  collection when the id is new). \<^verbatim>\<open>updateDoc\<close> merges the fields into the document
  with the given id and fails when there is no such document.
\<close>

definition addDoc :: "jsstring \<Rightarrow> DocumentData \<Rightarrow> collection \<Rightarrow> collection" where
  "addDoc newId d coll = AList.update newId d coll"

definition updateDoc :: "jsstring \<Rightarrow> FieldUpdate \<Rightarrow> collection \<Rightarrow> collection option" where
  "updateDoc i u coll =
     (case map_of coll i of
        None \<Rightarrow> None
      | Some d \<Rightarrow> Some (AList.update i (merge_fields d u) coll))"

text \<open>
  Every call the application makes to a collaborator (the alert dialog, the console, the
  image picker, \<^verbatim>\<open>fetch\<close>, object storage, the document store) is recorded, in the order
  of the calls. A write to the store is recorded when it is issued, whether the store
  accepts it or not.
\<close>

type_synonym blob = "nat list"

datatype effect =
    is_Alert: Alert string string
  | is_ConsoleError: ConsoleError string
  | is_RequestPermission: RequestMediaLibraryPermissions
  | is_LaunchPicker: LaunchImageLibrary
  | is_Fetch: Fetch jsstring
  | is_UploadBytes: UploadBytes jsstring blob
  | is_GetDownloadURL: GetDownloadURL jsstring
  | is_AddDoc: AddDoc DocumentData
  | is_UpdateDoc: UpdateDoc jsstring FieldUpdate

text \<open>
  The state: the React state of \<^verbatim>\<open>App\<close> (\<open>profile\<close>, \<open>loadingChores\<close>, \<open>chores\<close>,
  \<open>newChoreTitle\<close>, \<open>assignee\<close>), the profile the live \<^verbatim>\<open>onSnapshot\<close> listener was opened
  for (\<open>None\<close> when there is no listener), the profile kept in \<^verbatim>\<open>AsyncStorage\<close>, the
  remote collection, the objects in storage by path, and the record of the calls.
\<close>

record state =
  profile :: "Profile option"
  loadingChores :: bool
  chores :: "Chore list"
  newChoreTitle :: jsstring
  assignee :: jsstring
  subscription :: "Profile option"
  asyncStorage :: "Profile option"
  db :: collection
  bucket :: "(jsstring \<times> blob) list"
  effects :: "effect list"

definition emit :: "effect list \<Rightarrow> state \<Rightarrow> state" where
  "emit es s = s\<lparr>effects := effects s @ es\<rparr>"

definition emitted :: "state \<Rightarrow> state \<Rightarrow> effect list" where
  "emitted s s' = drop (length (effects s)) (effects s')"

section \<open>The Sync Engine (src/App.tsx, lines 53 to 103)\<close>

text \<open>
  \<open>familyQuery\<close> is the query of lines 58 to 62, evaluated on a state of the collection:
  the documents whose \<^verbatim>\<open>familyCode\<close> equals the profile's, newest \<^verbatim>\<open>createdAt\<close> first.
  As in the store, a document without the field it is ordered by is not in the result,
  a null value is ordered before every timestamp, and documents with the same
  \<^verbatim>\<open>createdAt\<close> are ordered by id, descending too (ids are compared code unit by code
  unit).
\<close>

fun createdAt_rank :: "nat nullable \<Rightarrow> nat" where
  "createdAt_rank (Val t) = Suc t"
| "createdAt_rank Null = 0"
| "createdAt_rank Undefined = 0"

definition familyQuery :: "Profile \<Rightarrow> collection \<Rightarrow> collection" where
  "familyQuery p coll =
     rev (sort_key (\<lambda>docSnap. createdAt_rank (data_createdAt (snd docSnap)))
       (sort_key fst
         (filter (\<lambda>docSnap. data_familyCode (snd docSnap) = Val (familyCode p)
                    \<and> data_createdAt (snd docSnap) \<noteq> Undefined) coll)))"

text \<open>The callback of \<^verbatim>\<open>snapshot.docs.map\<close> (lines 67 to 80): one document, normalised.\<close>

definition toChore :: "jsstring \<times> DocumentData \<Rightarrow> Chore" where
  "toChore docSnap =
     (let data = snd docSnap in
      \<lparr> chore_id = fst docSnap,
        title = nullish_or (data_title data) (js ''Untitled chore''),
        assignedTo = nullish_or (data_assignedTo data) [],
        chore_familyCode = nullish_or (data_familyCode data) [],
        status = nullish_or (data_status data) Pending,
        photoUrl = data_photoUrl data,
        completedBy = data_completedBy data,
        createdAt = data_createdAt data,
        completedAt = data_completedAt data \<rparr>)"

text \<open>The two callbacks given to \<^verbatim>\<open>onSnapshot\<close>: a delivery (lines 66 to 84), an error
  (lines 85 to 89).\<close>

definition onSnapshot_next :: "collection \<Rightarrow> state \<Rightarrow> state" where
  "onSnapshot_next docs s = s\<lparr>chores := map toChore docs, loadingChores := False\<rparr>"

definition onSnapshot_error :: "state \<Rightarrow> state" where
  "onSnapshot_error s =
     (emit [ConsoleError ''Failed to subscribe to chores'',
            Alert ''Sync error'' ''Could not subscribe to chores updates.''] s)
       \<lparr>loadingChores := False\<rparr>"

text \<open>
  The effect that depends on \<^verbatim>\<open>profile\<close> (lines 53 to 93), run after the profile has
  changed: the listener of the previous run is released; without a profile nothing
  else happens; with one, \<open>loadingChores\<close> is set and a listener is opened for it.
  A change of the profile and the run of the effect that follows it are one step here.
\<close>

definition profile_effect :: "state \<Rightarrow> state" where
  "profile_effect s =
     (case profile s of
        None \<Rightarrow> s\<lparr>subscription := None\<rparr>
      | Some p \<Rightarrow> s\<lparr>loadingChores := True, subscription := Some p\<rparr>)"

definition saveProfile :: "Profile \<Rightarrow> state \<Rightarrow> state" where
  "saveProfile payload s =
     profile_effect (s\<lparr>profile := Some payload, asyncStorage := Some payload\<rparr>)"

definition resetProfile :: "state \<Rightarrow> state" where
  "resetProfile s = profile_effect (s\<lparr>asyncStorage := None, profile := None\<rparr>)"

text \<open>The effect run once at the start (lines 43 to 51): the stored profile, if any,
  becomes the profile.\<close>

definition loadProfile :: "state \<Rightarrow> state" where
  "loadProfile s =
     (case asyncStorage s of
        None \<Rightarrow> s
      | Some stored \<Rightarrow> profile_effect (s\<lparr>profile := Some stored\<rparr>))"

text \<open>
  A snapshot reaches the application only through the live listener, and holds the
  result of that listener's query on the state of the collection it was computed from.
\<close>

definition deliver :: "collection \<Rightarrow> state \<Rightarrow> state" where
  "deliver coll s =
     (case subscription s of
        None \<Rightarrow> s
      | Some p \<Rightarrow> onSnapshot_next (familyQuery p coll) s)"

definition deliver_error :: "state \<Rightarrow> state" where
  "deliver_error s = (case subscription s of None \<Rightarrow> s | Some p \<Rightarrow> onSnapshot_error s)"

section \<open>Creating a chore (src/App.tsx, lines 105 to 128)\<close>

text \<open>
  What the store answers to \<^verbatim>\<open>addDoc\<close>: the id it generated for the new document, or
  \<open>None\<close> when it rejects the write; and the reading of the server's clock that
  \<^verbatim>\<open>serverTimestamp()\<close> stands for.
\<close>

record add_env =
  addDoc_result :: "jsstring option"
  add_serverTimestamp :: nat

definition new_chore :: "Profile \<Rightarrow> jsstring \<Rightarrow> jsstring \<Rightarrow> nat \<Rightarrow> DocumentData" where
  "new_chore p newTitle newAssignee now =
     \<lparr> data_title = Val (trim newTitle),
       data_assignedTo = Val (trim newAssignee),
       data_familyCode = Val (familyCode p),
       data_status = Val Pending,
       data_photoUrl = Null,
       data_completedBy = Undefined,
       data_createdAt = Val now,
       data_completedAt = Undefined \<rparr>"

definition addChore :: "add_env \<Rightarrow> state \<Rightarrow> state" where
  "addChore env s =
     (case profile s of
        None \<Rightarrow> s
      | Some p \<Rightarrow>
          if trim (newChoreTitle s) = [] \<or> trim (assignee s) = [] then
            emit [Alert ''Missing info'' ''Add a chore title and who it is for.''] s
          else
            let d = new_chore p (newChoreTitle s) (assignee s) (add_serverTimestamp env);
                s1 = emit [AddDoc d] s
            in (case addDoc_result env of
                  Some newId \<Rightarrow>
                    s1\<lparr>db := addDoc newId d (db s1), newChoreTitle := [], assignee := []\<rparr>
                | None \<Rightarrow>
                    emit [ConsoleError ''Failed to add chore'',
                          Alert ''Save failed'' ''Could not add this chore right now.''] s1))"

section \<open>Uploading a proof (src/App.tsx, lines 130 to 173)\<close>

text \<open>
  What the collaborators answer during one run of \<^verbatim>\<open>uploadProof\<close>: the permission
  request, the picker (\<open>picker_assets\<close> is \<open>None\<close> for a missing \<^verbatim>\<open>assets\<close>; an asset is
  its \<^verbatim>\<open>uri\<close>), \<^verbatim>\<open>fetch\<close> and \<^verbatim>\<open>blob()\<close> (\<open>None\<close> when either throws), \<^verbatim>\<open>Date.now()\<close>,
  \<^verbatim>\<open>uploadBytes\<close>, \<^verbatim>\<open>getDownloadURL\<close> (\<open>None\<close> when it throws), whether the store
  accepts the update, and the server's clock.
\<close>

record upload_env =
  permission_granted :: bool
  picker_canceled :: bool
  picker_assets :: "jsstring list option"
  fetch_blob :: "blob option"
  date_now :: nat
  uploadBytes_ok :: bool
  getDownloadURL_result :: "jsstring option"
  updateDoc_ok :: bool
  upload_serverTimestamp :: nat

text \<open>Line 145 and line 148: the first asset, unless the picker was cancelled or
  returned none.\<close>

definition picked_asset :: "upload_env \<Rightarrow> jsstring option" where
  "picked_asset env =
     (if picker_canceled env then None
      else case picker_assets env of
             None \<Rightarrow> None
           | Some [] \<Rightarrow> None
           | Some (asset # rest) \<Rightarrow> Some asset)"

text \<open>The path of \<^verbatim>\<open>storageRef\<close> (lines 153 to 156).\<close>

definition storageRef :: "Profile \<Rightarrow> Chore \<Rightarrow> nat \<Rightarrow> jsstring" where
  "storageRef p chore now =
     js ''choreProofs/'' @ familyCode p @ js ''/'' @ chore_id chore @ js ''-''
       @ string_of_nat now @ js ''.jpg''"

text \<open>The fields of the update of lines 161 to 166.\<close>

definition completion :: "Profile \<Rightarrow> jsstring \<Rightarrow> nat \<Rightarrow> FieldUpdate" where
  "completion p downloadUrl now =
     \<lparr> upd_title = None,
       upd_assignedTo = None,
       upd_familyCode = None,
       upd_status = Some (Val Completed),
       upd_photoUrl = Some (Val downloadUrl),
       upd_completedBy = Some (Val (displayName p)),
       upd_createdAt = None,
       upd_completedAt = Some (Val now) \<rparr>"

text \<open>
  The body of the \<^verbatim>\<open>try\<close> block (lines 151 to 166). \<open>Inl\<close> is a throw, with the state
  reached when it happened; \<open>Inr\<close> is the normal end.
\<close>

definition upload_try :: "Profile \<Rightarrow> Chore \<Rightarrow> jsstring \<Rightarrow> upload_env \<Rightarrow> state \<Rightarrow> state + state" where
  "upload_try p chore asset env s =
     (let s1 = emit [Fetch asset] s in
      (case fetch_blob env of
         None \<Rightarrow> Inl s1
       | Some blob \<Rightarrow>
          (let path = storageRef p chore (date_now env);
               s2 = emit [UploadBytes path blob] s1
           in if \<not> uploadBytes_ok env then Inl s2
              else
                (let s3 = emit [GetDownloadURL path]
                           (s2\<lparr>bucket := AList.update path blob (bucket s2)\<rparr>)
                 in (case getDownloadURL_result env of
                       None \<Rightarrow> Inl s3
                     | Some downloadUrl \<Rightarrow>
                        (let u = completion p downloadUrl (upload_serverTimestamp env);
                             s4 = emit [UpdateDoc (chore_id chore) u] s3
                         in if \<not> updateDoc_ok env then Inl s4
                            else (case updateDoc (chore_id chore) u (db s4) of
                                    None \<Rightarrow> Inl s4
                                  | Some coll \<Rightarrow> Inr (s4\<lparr>db := coll\<rparr>))))))))"

definition uploadProof :: "Chore \<Rightarrow> upload_env \<Rightarrow> state \<Rightarrow> state" where
  "uploadProof chore env s =
     (case profile s of
        None \<Rightarrow> s
      | Some p \<Rightarrow>
         (let s1 = emit [RequestMediaLibraryPermissions] s in
          if \<not> permission_granted env then
            emit [Alert ''Permission needed'' ''We need access to your photos.''] s1
          else
            (let s2 = emit [LaunchImageLibrary] s1 in
             (case picked_asset env of
                None \<Rightarrow> s2
              | Some asset \<Rightarrow>
                 (case upload_try p chore asset env s2 of
                    Inr s3 \<Rightarrow> s3
                  | Inl s3 \<Rightarrow>
                      emit [ConsoleError ''Failed to upload proof'',
                            Alert ''Upload failed'' ''Could not upload photo right now.''] s3)))))"

section \<open>The View Projector (src/App.tsx, lines 175 to 182 and 212 to 228)\<close>

definition childChores ::
  "(jsstring \<Rightarrow> jsstring) \<Rightarrow> Profile option \<Rightarrow> Chore list \<Rightarrow> Chore list" where
  "childChores toLowerCase prof cs =
     (case prof of
        None \<Rightarrow> []
      | Some p \<Rightarrow>
          if role p \<noteq> Child then []
          else filter (\<lambda>chore. trim (toLowerCase (assignedTo chore))
                               = trim (toLowerCase (displayName p))) cs)"

text \<open>The list handed to the view: \<^verbatim>\<open>ParentView\<close> gets \<open>chores\<close>, \<^verbatim>\<open>ChildView\<close> gets
  \<open>childChores\<close>.\<close>

definition shownChores ::
  "(jsstring \<Rightarrow> jsstring) \<Rightarrow> Profile \<Rightarrow> Chore list \<Rightarrow> Chore list" where
  "shownChores toLowerCase p cs =
     (if role p = Parent then cs else childChores toLowerCase (Some p) cs)"

section \<open>Runs of the application\<close>

datatype event =
    LoadProfile
  | SaveProfile Profile
  | ResetProfile
  | SetNewChoreTitle jsstring
  | SetAssignee jsstring
  | AddChore add_env
  | UploadProof Chore upload_env
  | Snapshot collection
  | SnapshotError

fun step :: "state \<Rightarrow> event \<Rightarrow> state" where
  "step s LoadProfile = loadProfile s"
| "step s (SaveProfile payload) = saveProfile payload s"
| "step s ResetProfile = resetProfile s"
| "step s (SetNewChoreTitle t) = s\<lparr>newChoreTitle := t\<rparr>"
| "step s (SetAssignee a) = s\<lparr>assignee := a\<rparr>"
| "step s (AddChore env) = addChore env s"
| "step s (UploadProof chore env) = uploadProof chore env s"
| "step s (Snapshot coll) = deliver coll s"
| "step s SnapshotError = deliver_error s"

fun run :: "state \<Rightarrow> event list \<Rightarrow> state" where
  "run s [] = s"
| "run s (e # es) = run (step s e) es"

text \<open>The state at the start: no profile, no listener, no chores held, empty inputs.\<close>

definition initial :: "Profile option \<Rightarrow> collection \<Rightarrow> (jsstring \<times> blob) list \<Rightarrow> state" where
  "initial stored coll objs =
     \<lparr> profile = None, loadingChores = False, chores = [], newChoreTitle = [],
       assignee = [], subscription = None, asyncStorage = stored, db = coll,
       bucket = objs, effects = [] \<rparr>"

text \<open>
  The store generates an id that no document of the collection has. A run respects this
  when the id answered to each \<^verbatim>\<open>addDoc\<close> is new at that moment.
\<close>

fun fresh_id :: "state \<Rightarrow> event \<Rightarrow> bool" where
  "fresh_id s (AddChore env) =
     (case addDoc_result env of None \<Rightarrow> True | Some newId \<Rightarrow> newId \<notin> fst ` set (db s))"
| "fresh_id s e = True"

fun fresh_ids :: "state \<Rightarrow> event list \<Rightarrow> bool" where
  "fresh_ids s [] = True"
| "fresh_ids s (e # es) = (fresh_id s e \<and> fresh_ids (step s e) es)"

text \<open>The events that give the application a profile.\<close>

fun sets_profile :: "event \<Rightarrow> bool" where
  "sets_profile LoadProfile = True"
| "sets_profile (SaveProfile payload) = True"
| "sets_profile e = False"

text \<open>The chores held are of the family of the profile, if there is a profile.\<close>

definition held_in_family :: "state \<Rightarrow> bool" where
  "held_in_family s =
     (case profile s of
        None \<Rightarrow> True
      | Some p \<Rightarrow> list_all (\<lambda>c. chore_familyCode c = familyCode p) (chores s))"

text \<open>The status a document shows once normalised, by id.\<close>

definition status_of :: "collection \<Rightarrow> jsstring \<Rightarrow> ChoreStatus option" where
  "status_of coll i = map_option (\<lambda>d. status (toChore (i, d))) (map_of coll i)"

section \<open>Example values\<close>

text \<open>
  The lowercase mapping of the letters of Basic Latin and of the Latin-1 Supplement
  (\<^verbatim>\<open>A\<close> to \<^verbatim>\<open>Z\<close>, and U+00C0 to U+00DE but the multiplication sign U+00D7, each to the
  code unit 32 above). On a string whose code units are all below U+0100 this is what
  \<^verbatim>\<open>toLowerCase\<close> returns; the examples apply it to such strings only.
\<close>

definition latin1_lower :: "16 word \<Rightarrow> 16 word" where
  "latin1_lower c =
     (if (0x41 \<le> c \<and> c \<le> 0x5A) \<or> (0xC0 \<le> c \<and> c \<le> 0xDE \<and> c \<noteq> 0xD7)
      then c + 32 else c)"

definition latin1_toLowerCase :: "jsstring \<Rightarrow> jsstring" where
  "latin1_toLowerCase s = map latin1_lower s"

text \<open>
  The scenario of the specification: the family \<^verbatim>\<open>abc12\<close>, a parent, the child Sam, the
  chore "Dishes" for Sam, a chore of the same family for another child, and a chore of
  another family.
\<close>

definition sam :: Profile where
  "sam = \<lparr> displayName = js ''Sam'', familyCode = js ''abc12'', role = Child \<rparr>"

definition mum :: Profile where
  "mum = \<lparr> displayName = js ''Mum'', familyCode = js ''abc12'', role = Parent \<rparr>"

definition dishes :: DocumentData where
  "dishes =
     \<lparr> data_title = Val (js ''Dishes''), data_assignedTo = Val (js ''sam''),
       data_familyCode = Val (js ''abc12''), data_status = Val Pending,
       data_photoUrl = Null, data_completedBy = Undefined, data_createdAt = Val 100,
       data_completedAt = Undefined \<rparr>"

definition mowing :: DocumentData where
  "mowing =
     \<lparr> data_title = Val (js ''Mow the lawn''), data_assignedTo = Val (js ''Alex''),
       data_familyCode = Val (js ''abc12''), data_status = Val Pending,
       data_photoUrl = Null, data_completedBy = Undefined, data_createdAt = Val 110,
       data_completedAt = Undefined \<rparr>"

definition laundry :: DocumentData where
  "laundry =
     \<lparr> data_title = Val (js ''Laundry''), data_assignedTo = Val (js ''Kim''),
       data_familyCode = Val (js ''xyz99''), data_status = Val Pending,
       data_photoUrl = Null, data_completedBy = Undefined, data_createdAt = Val 120,
       data_completedAt = Undefined \<rparr>"

definition family_db :: collection where
  "family_db = [(js ''c1'', dishes), (js ''c2'', laundry), (js ''c3'', mowing)]"

text \<open>
  A child whose name starts with U+00C9, and three chores for her: one with the name in
  lower case, one with the name in upper case between a no-break space (U+00A0) and a
  space followed by a line separator (U+2028), and one for Sam with a space inside the
  name.
\<close>

definition edith :: Profile where
  "edith = \<lparr> displayName = 0xC9 # js ''dith'', familyCode = js ''abc12'', role = Child \<rparr>"

definition edith_chores :: "Chore list" where
  "edith_chores =
     [toChore (js ''a'', dishes\<lparr>data_assignedTo := Val (0xE9 # js ''dith'')\<rparr>),
      toChore (js ''b'', dishes\<lparr>data_assignedTo := Val (0xA0 # 0xC9 # js ''DITH '' @ [0x2028])\<rparr>),
      toChore (js ''c'', dishes\<lparr>data_assignedTo := Val (js ''S am'')\<rparr>)]"

text \<open>Sam's device, and the parent's with the form filled in: the title between a
  no-break space and a line separator, the assignee followed by a space.\<close>

definition sam_home :: state where
  "sam_home = saveProfile sam (initial None family_db [])"

definition mum_form :: state where
  "mum_form =
     run (initial None [] [])
       [SaveProfile mum, SetNewChoreTitle (0xA0 # js ''Do dishes'' @ [0x2028]),
        SetAssignee (js ''sam '')]"

definition mum_env :: add_env where
  "mum_env = \<lparr> addDoc_result = Some (js ''c1''), add_serverTimestamp = 100 \<rparr>"

text \<open>A run of the pipeline in which every collaborator succeeds.\<close>

definition photo_env :: upload_env where
  "photo_env =
     \<lparr> permission_granted = True, picker_canceled = False,
       picker_assets = Some [js ''file:///photo.jpg''], fetch_blob = Some [255, 216, 255],
       date_now = 1700000000123, uploadBytes_ok = True,
       getDownloadURL_result = Some (js ''https://storage.example/c1''),
       updateDoc_ok = True, upload_serverTimestamp = 200 \<rparr>"

text \<open>
  A day on which "Dishes" is already completed: the parent adds a chore, then Sam
  uploads a proof for "Dishes" again.
\<close>

definition done_db :: collection where
  "done_db = [(js ''c1'', dishes\<lparr>data_status := Val Completed\<rparr>)]"

definition busy_day :: "event list" where
  "busy_day =
     [SaveProfile mum, SetNewChoreTitle (js ''Laundry''), SetAssignee (js ''Sam''),
      AddChore \<lparr> addDoc_result = Some (js ''c2''), add_serverTimestamp = 150 \<rparr>,
      SaveProfile sam, UploadProof (toChore (js ''c1'', dishes)) photo_env]"

text \<open>
  The path the specification gives for an uploaded object:
  \<^verbatim>\<open>choreProofs/{familyCode}/{choreId}-{uploadTimestamp}\<close>.
\<close>

definition spec_storage_path :: "jsstring \<Rightarrow> jsstring \<Rightarrow> nat \<Rightarrow> jsstring" where
  "spec_storage_path fc cid now =
     js ''choreProofs/'' @ fc @ js ''/'' @ cid @ js ''-'' @ string_of_nat now"

section \<open>Literals\<close>

lemma js_simps [simp]:
  "js [] = []"
  "js (c # cs) = of_nat (of_char c) # js cs"
  by (simp_all add: js_def)

section \<open>Trimming\<close>

text \<open>\<open>trim\<close> returns the string trimmed, and nothing else is the string trimmed.\<close>

lemma trim_trimmed: "trimmed_of s (trim s)"
proof -
  let ?u = "dropWhile is_space s"
  let ?l = "takeWhile is_space s"
  let ?r = "rev (takeWhile is_space (rev ?u))"
  have "trim s @ ?r = rev (takeWhile is_space (rev ?u) @ dropWhile is_space (rev ?u))"
    by (simp only: trim_def rev_append)
  also have "\<dots> = ?u"
    by (simp only: takeWhile_dropWhile_id rev_rev_ident)
  finally have u: "?u = trim s @ ?r" by (rule sym)
  have "s = ?l @ ?u" by simp
  with u have decomp: "s = ?l @ trim s @ ?r" by simp
  have l: "list_all is_space ?l"
    by (simp add: list_all_iff) (meson set_takeWhileD)
  have r: "list_all is_space ?r"
    by (simp add: list_all_iff) (meson set_takeWhileD)
  have ends: "\<not> is_space (hd (trim s)) \<and> \<not> is_space (last (trim s))" if ne: "trim s \<noteq> []"
  proof -
    from ne have ne': "dropWhile is_space (rev ?u) \<noteq> []"
      by (simp add: trim_def)
    then have "\<not> is_space (hd (dropWhile is_space (rev ?u)))"
      by (rule hd_dropWhile)
    then have last: "\<not> is_space (last (trim s))"
      using ne' by (simp add: trim_def last_rev)
    from u ne have "hd ?u = hd (trim s)" and "?u \<noteq> []"
      by (metis hd_append2, metis append_is_Nil_conv)
    with hd_dropWhile [of is_space s] have "\<not> is_space (hd (trim s))"
      by simp
    with last show ?thesis by simp
  qed
  show ?thesis
    unfolding trimmed_of_def using decomp l r ends by blast
qed

lemma trimmed_unique:
  assumes "trimmed_of s t"
  shows "trim s = t"
proof -
  from assms obtain l r where s: "s = l @ t @ r"
    and l: "list_all is_space l" and r: "list_all is_space r"
    and t: "t = [] \<or> (\<not> is_space (hd t) \<and> \<not> is_space (last t))"
    unfolding trimmed_of_def by blast
  have dl: "dropWhile is_space (l @ xs) = dropWhile is_space xs" for xs
    using l by (intro dropWhile_append2) (simp add: list_all_iff)
  have dr: "dropWhile is_space (rev r @ xs) = dropWhile is_space xs" for xs
    using r by (intro dropWhile_append2) (simp add: list_all_iff)
  show ?thesis
  proof (cases "t = []")
    case True
    from r have "dropWhile is_space r = []"
      by (simp add: list_all_iff)
    then have "dropWhile is_space s = []"
      by (simp only: s True append_Nil dl)
    then show ?thesis
      by (simp only: trim_def True rev.simps dropWhile.simps)
  next
    case False
    with t have h: "\<not> is_space (hd t)" and e: "\<not> is_space (last t)" by simp_all
    from False h have front: "dropWhile is_space (t @ r) = t @ r"
      by (cases t) simp_all
    from False e have "\<not> is_space (hd (rev t))"
      by (simp add: hd_rev)
    with False have rear: "dropWhile is_space (rev t) = rev t"
      by (cases "rev t") simp_all
    show ?thesis
      using s dl [of "t @ r"] dr [of "rev t"] front rear by (simp add: trim_def)
  qed
qed

lemma trimmed_of_iff: "trimmed_of s t \<longleftrightarrow> t = trim s"
  using trim_trimmed trimmed_unique by blast

lemma trim_blank: "trim s = [] \<longleftrightarrow> list_all is_space s"
proof
  assume "trim s = []"
  with trim_trimmed [of s] obtain l r where "s = l @ r" "list_all is_space l" "list_all is_space r"
    unfolding trimmed_of_def by auto
  then show "list_all is_space s" by simp
next
  assume "list_all is_space s"
  then have "trimmed_of s []"
    unfolding trimmed_of_def by (intro exI [of _ s] exI [of _ "[]"]) simp
  then show "trim s = []" by (rule trimmed_unique)
qed

section \<open>Basic facts\<close>

lemma emit_fields [simp]:
  "effects (emit es s) = effects s @ es"
  "db (emit es s) = db s"
  "bucket (emit es s) = bucket s"
  "chores (emit es s) = chores s"
  "profile (emit es s) = profile s"
  "subscription (emit es s) = subscription s"
  by (simp_all add: emit_def)

lemma emitted_append [simp]: "effects s' = effects s @ es \<Longrightarrow> emitted s s' = es"
  by (simp add: emitted_def)

lemma toChore_fields [simp]:
  "chore_id (toChore (i, d)) = i"
  "title (toChore (i, d)) = nullish_or (data_title d) (js ''Untitled chore'')"
  "assignedTo (toChore (i, d)) = nullish_or (data_assignedTo d) []"
  "chore_familyCode (toChore (i, d)) = nullish_or (data_familyCode d) []"
  "status (toChore (i, d)) = nullish_or (data_status d) Pending"
  by (simp_all add: toChore_def Let_def)

lemma update_fresh: "k \<notin> fst ` set al \<Longrightarrow> AList.update k v al = al @ [(k, v)]"
  by (induction al) auto

lemma keys_update_present:
  "map_of al k = Some v \<Longrightarrow> map fst (AList.update k v' al) = map fst al"
  by (simp add: AList.update_keys weak_map_of_SomeI domI dom_map_of_conv_image_fst [symmetric])

lemma status_of_update:
  "status_of (AList.update k v coll) i =
     (if i = k then Some (status (toChore (k, v))) else status_of coll i)"
  by (simp add: status_of_def AList.update_conv')

lemma merge_completion:
  "merge_fields d (completion p url now) =
     d\<lparr> data_status := Val Completed, data_photoUrl := Val url,
        data_completedBy := Val (displayName p), data_completedAt := Val now \<rparr>"
  by (simp add: merge_fields_def completion_def)

text \<open>The example states, evaluated.\<close>

lemma sam_home_fields:
  "profile sam_home = Some sam"
  "subscription sam_home = Some sam"
  "db sam_home = family_db"
  "chores sam_home = []"
  "effects sam_home = []"
  by (simp_all add: sam_home_def saveProfile_def profile_effect_def initial_def)

lemma mum_form_fields:
  "profile mum_form = Some mum"
  "db mum_form = []"
  "newChoreTitle mum_form = 0xA0 # js ''Do dishes'' @ [0x2028]"
  "assignee mum_form = js ''sam ''"
  by (simp_all add: mum_form_def saveProfile_def profile_effect_def initial_def)

lemma photo_env_picked: "picked_asset photo_env = Some (js ''file:///photo.jpg'')"
  by (simp add: picked_asset_def photo_env_def)

section \<open>The upload pipeline, stage by stage\<close>

lemma uploadProof_try:
  "profile s = Some p \<Longrightarrow> permission_granted env \<Longrightarrow> picked_asset env = Some asset \<Longrightarrow>
   uploadProof chore env s =
     (case upload_try p chore asset env
             (emit [LaunchImageLibrary] (emit [RequestMediaLibraryPermissions] s)) of
        Inr s3 \<Rightarrow> s3
      | Inl s3 \<Rightarrow>
          emit [ConsoleError ''Failed to upload proof'',
                Alert ''Upload failed'' ''Could not upload photo right now.''] s3)"
  by (simp add: uploadProof_def Let_def)

lemma upload_try_fetch_throws:
  "fetch_blob env = None \<Longrightarrow> upload_try p chore asset env s = Inl (emit [Fetch asset] s)"
  by (simp add: upload_try_def)

lemma upload_try_upload_throws:
  "fetch_blob env = Some blob \<Longrightarrow> \<not> uploadBytes_ok env \<Longrightarrow>
   upload_try p chore asset env s =
     Inl (emit [UploadBytes (storageRef p chore (date_now env)) blob] (emit [Fetch asset] s))"
  by (simp add: upload_try_def Let_def)

lemma upload_try_url_throws:
  "fetch_blob env = Some blob \<Longrightarrow> uploadBytes_ok env \<Longrightarrow>
   getDownloadURL_result env = None \<Longrightarrow>
   upload_try p chore asset env s =
     Inl (emit [GetDownloadURL (storageRef p chore (date_now env))]
           ((emit [UploadBytes (storageRef p chore (date_now env)) blob] (emit [Fetch asset] s))
              \<lparr>bucket := AList.update (storageRef p chore (date_now env)) blob (bucket s)\<rparr>))"
  by (simp add: upload_try_def Let_def)

lemma upload_try_reaches_update:
  "fetch_blob env = Some blob \<Longrightarrow> uploadBytes_ok env \<Longrightarrow>
   getDownloadURL_result env = Some url \<Longrightarrow>
   upload_try p chore asset env s =
     (let s4 = emit [UpdateDoc (chore_id chore) (completion p url (upload_serverTimestamp env))]
                (emit [GetDownloadURL (storageRef p chore (date_now env))]
                  ((emit [UploadBytes (storageRef p chore (date_now env)) blob]
                      (emit [Fetch asset] s))
                    \<lparr>bucket := AList.update (storageRef p chore (date_now env)) blob (bucket s)\<rparr>))
      in if \<not> updateDoc_ok env then Inl s4
         else (case updateDoc (chore_id chore)
                      (completion p url (upload_serverTimestamp env)) (db s) of
                 None \<Rightarrow> Inl s4
               | Some coll \<Rightarrow> Inr (s4\<lparr>db := coll\<rparr>)))"
  by (simp add: upload_try_def Let_def split: option.splits)

text \<open>What the \<^verbatim>\<open>try\<close> block can do to the profile, the listener, the chores held and
  the collection.\<close>

lemma upload_try_frame:
  "upload_try p chore asset env s = Inl s' \<or> upload_try p chore asset env s = Inr s' \<Longrightarrow>
   profile s' = profile s \<and> subscription s' = subscription s \<and> chores s' = chores s"
  by (auto simp add: upload_try_def Let_def split: option.splits if_splits)

lemma upload_try_db:
  "upload_try p chore asset env s = Inl s' \<Longrightarrow> db s' = db s"
  "upload_try p chore asset env s = Inr s' \<Longrightarrow>
     \<exists>url. updateDoc (chore_id chore) (completion p url (upload_serverTimestamp env)) (db s)
             = Some (db s')"
  by (auto simp add: upload_try_def Let_def split: option.splits if_splits)

lemma uploadProof_shape:
  "(\<exists>es. uploadProof chore env s = emit es s)
   \<or> (\<exists>p asset es s'. upload_try p chore asset env (emit es s) = Inl s'
         \<and> (\<exists>es'. uploadProof chore env s = emit es' s'))
   \<or> (\<exists>p asset es s'. upload_try p chore asset env (emit es s) = Inr s'
         \<and> uploadProof chore env s = s')"
proof (cases "profile s")
  case None
  then have "uploadProof chore env s = emit [] s"
    by (simp add: uploadProof_def emit_def)
  then show ?thesis by blast
next
  case (Some p)
  show ?thesis
  proof (cases "permission_granted env")
    case False
    with Some have "uploadProof chore env s =
        emit [RequestMediaLibraryPermissions,
              Alert ''Permission needed'' ''We need access to your photos.''] s"
      by (simp add: uploadProof_def emit_def)
    then show ?thesis by blast
  next
    case True
    show ?thesis
    proof (cases "picked_asset env")
      case None
      with Some True have "uploadProof chore env s =
          emit [RequestMediaLibraryPermissions, LaunchImageLibrary] s"
        by (simp add: uploadProof_def emit_def)
      then show ?thesis by blast
    next
      case (Some asset)
      let ?s2 = "emit [RequestMediaLibraryPermissions, LaunchImageLibrary] s"
      have start: "uploadProof chore env s =
          (case upload_try p chore asset env ?s2 of
             Inr s3 \<Rightarrow> s3
           | Inl s3 \<Rightarrow> emit [ConsoleError ''Failed to upload proof'',
                     Alert ''Upload failed'' ''Could not upload photo right now.''] s3)"
        using \<open>profile s = Some p\<close> True Some by (simp add: uploadProof_def emit_def)
      show ?thesis
      proof (cases "upload_try p chore asset env ?s2")
        case (Inl s')
        with start show ?thesis by (simp only: sum.case) blast
      next
        case (Inr s')
        with start show ?thesis by (simp only: sum.case) blast
      qed
    qed
  qed
qed

lemma uploadProof_frame:
  "profile (uploadProof chore env s) = profile s
   \<and> subscription (uploadProof chore env s) = subscription s
   \<and> chores (uploadProof chore env s) = chores s"
  using uploadProof_shape [of chore env s]
  by (auto dest!: upload_try_frame [OF disjI1] upload_try_frame [OF disjI2])

lemma uploadProof_db:
  "db (uploadProof chore env s) = db s
   \<or> (\<exists>p url. updateDoc (chore_id chore) (completion p url (upload_serverTimestamp env)) (db s)
                = Some (db (uploadProof chore env s)))"
  using uploadProof_shape [of chore env s]
  by (auto dest!: upload_try_db)

lemma addChore_frame:
  "profile (addChore env s) = profile s
   \<and> subscription (addChore env s) = subscription s
   \<and> chores (addChore env s) = chores s"
  by (simp add: addChore_def Let_def split: option.splits)

lemma addChore_db:
  "db (addChore env s) = db s
   \<or> (\<exists>p newId. addDoc_result env = Some newId
         \<and> db (addChore env s) =
             addDoc newId (new_chore p (newChoreTitle s) (assignee s) (add_serverTimestamp env))
               (db s))"
  by (auto simp add: addChore_def Let_def split: option.splits)

section \<open>Status transitions\<close>

lemma step_keeps_completed:
  assumes "fresh_id s e" and "status_of (db s) i = Some Completed"
  shows "status_of (db (step s e)) i = Some Completed"
proof (cases e)
  case (AddChore env)
  from assms(2) obtain d where "map_of (db s) i = Some d"
    by (auto simp add: status_of_def)
  then have present: "i \<in> fst ` set (db s)"
    by (simp add: dom_map_of_conv_image_fst [symmetric] domI)
  from addChore_db [of env s] show ?thesis
  proof (elim disjE exE conjE)
    assume "db (addChore env s) = db s"
    with AddChore assms(2) show ?thesis by simp
  next
    fix p newId
    assume res: "addDoc_result env = Some newId"
      and new: "db (addChore env s) =
        addDoc newId (new_chore p (newChoreTitle s) (assignee s) (add_serverTimestamp env)) (db s)"
    from assms(1) AddChore res have "newId \<notin> fst ` set (db s)" by simp
    with present have "i \<noteq> newId" by auto
    with AddChore new assms(2) show ?thesis
      by (simp add: addDoc_def status_of_update)
  qed
next
  case (UploadProof chore env)
  from uploadProof_db [of chore env s] show ?thesis
  proof (elim disjE exE)
    assume "db (uploadProof chore env s) = db s"
    with UploadProof assms(2) show ?thesis by simp
  next
    fix p url
    assume "updateDoc (chore_id chore) (completion p url (upload_serverTimestamp env)) (db s)
              = Some (db (uploadProof chore env s))"
    then obtain d where "AList.update (chore_id chore)
          (merge_fields d (completion p url (upload_serverTimestamp env))) (db s)
        = db (uploadProof chore env s)"
      by (auto simp add: updateDoc_def split: option.splits)
    from this [symmetric] UploadProof assms(2) show ?thesis
      by (simp add: status_of_update merge_completion)
  qed
qed (use assms(2) in \<open>simp_all add: saveProfile_def resetProfile_def loadProfile_def
      profile_effect_def deliver_def deliver_error_def onSnapshot_next_def onSnapshot_error_def
      split: option.splits\<close>)

text \<open>
  Claim C1. Along every run of the application (profile changes, form input, chore
  creation, proof upload, snapshot deliveries and errors) in which the store answers
  each creation with a new id, a document whose status is completed keeps the status
  completed: no operation sets it back to pending.
\<close>

theorem completed_never_reverts:
  "fresh_ids s es \<Longrightarrow> status_of (db s) i = Some Completed \<Longrightarrow>
   status_of (db (run s es)) i = Some Completed"
  by (induction es arbitrary: s) (simp_all add: step_keeps_completed)

theorem completed_never_reverts_witness:
  "fresh_ids (initial None done_db []) busy_day
   \<and> status_of (db (initial None done_db [])) (js ''c1'') = Some Completed
   \<and> status_of (db (run (initial None done_db []) busy_day)) (js ''c1'') = Some Completed"
proof -
  have fresh: "fresh_ids (initial None done_db []) busy_day"
    by (simp add: busy_day_def done_db_def initial_def saveProfile_def profile_effect_def)
  have completed: "status_of (db (initial None done_db [])) (js ''c1'') = Some Completed"
    by (simp add: status_of_def initial_def done_db_def)
  show ?thesis
    using completed_never_reverts [OF fresh completed] fresh completed by simp
qed

section \<open>The view\<close>

text \<open>
  Claim C2. Whatever the lowercase mapping of the engine is: for a profile with the role
  child, the list handed to the view is the chore list filtered by: \<^verbatim>\<open>assignedTo\<close>,
  lowercased and trimmed, equals the profile's \<^verbatim>\<open>displayName\<close>, lowercased and trimmed;
  that is, by: the two lowercased strings are the same string once the white space at
  their ends is left out; it is a sublist of the chore list. For a profile with the role
  parent it is the chore list itself.
\<close>

theorem view_projector:
  "(role p = Child \<longrightarrow>
      shownChores toLowerCase p cs =
        filter (\<lambda>c. trim (toLowerCase (assignedTo c)) = trim (toLowerCase (displayName p))) cs
      \<and> shownChores toLowerCase p cs =
        filter (\<lambda>c. \<exists>t. trimmed_of (toLowerCase (assignedTo c)) t
                        \<and> trimmed_of (toLowerCase (displayName p)) t) cs
      \<and> subseq (shownChores toLowerCase p cs) cs)
   \<and> (role p = Parent \<longrightarrow> shownChores toLowerCase p cs = cs)"
proof -
  have "(\<exists>t. trimmed_of a t \<and> trimmed_of b t) \<longleftrightarrow> trim a = trim b" for a b
    by (auto simp add: trimmed_of_iff)
  then show ?thesis
    by (simp add: shownChores_def childChores_def)
qed

theorem view_projector_witness:
  "role edith = Child
   \<and> shownChores latin1_toLowerCase edith edith_chores
       = [toChore (js ''a'', dishes\<lparr>data_assignedTo := Val (0xE9 # js ''dith'')\<rparr>),
          toChore (js ''b'',
            dishes\<lparr>data_assignedTo := Val (0xA0 # 0xC9 # js ''DITH '' @ [0x2028])\<rparr>)]
   \<and> role sam = Child
   \<and> shownChores latin1_toLowerCase sam edith_chores = []
   \<and> role mum = Parent
   \<and> shownChores latin1_toLowerCase mum edith_chores = edith_chores"
proof -
  let ?L = latin1_toLowerCase
  have hers: "filter (\<lambda>c. trim (?L (assignedTo c)) = trim (?L (displayName edith)))
        edith_chores
      = [toChore (js ''a'', dishes\<lparr>data_assignedTo := Val (0xE9 # js ''dith'')\<rparr>),
         toChore (js ''b'',
           dishes\<lparr>data_assignedTo := Val (0xA0 # 0xC9 # js ''DITH '' @ [0x2028])\<rparr>)]"
    by (simp add: edith_chores_def edith_def latin1_toLowerCase_def latin1_lower_def
        trim_def is_space_def)
  have his: "filter (\<lambda>c. trim (?L (assignedTo c)) = trim (?L (displayName sam)))
        edith_chores = []"
    by (simp add: edith_chores_def sam_def latin1_toLowerCase_def latin1_lower_def
        trim_def is_space_def)
  have roles: "role edith = Child" "role sam = Child" "role mum = Parent"
    by (simp_all add: edith_def sam_def mum_def)
  from view_projector [where p = edith and toLowerCase = ?L and cs = edith_chores] roles(1)
  have "shownChores ?L edith edith_chores =
      filter (\<lambda>c. trim (?L (assignedTo c)) = trim (?L (displayName edith))) edith_chores"
    by blast
  moreover
  from view_projector [where p = sam and toLowerCase = ?L and cs = edith_chores] roles(2)
  have "shownChores ?L sam edith_chores =
      filter (\<lambda>c. trim (?L (assignedTo c)) = trim (?L (displayName sam))) edith_chores"
    by blast
  moreover
  from view_projector [where p = mum and toLowerCase = ?L and cs = edith_chores] roles(3)
  have "shownChores ?L mum edith_chores = edith_chores"
    by blast
  ultimately show ?thesis
    using hers his roles by simp
qed

section \<open>The snapshot listener\<close>

lemma listener_follows_profile:
  "subscription s = profile s \<Longrightarrow> subscription (step s e) = profile (step s e)"
proof (cases e)
  case (AddChore env)
  assume "subscription s = profile s"
  with AddChore show ?thesis by (simp add: addChore_frame)
next
  case (UploadProof chore env)
  assume "subscription s = profile s"
  with UploadProof show ?thesis by (simp add: uploadProof_frame)
qed (simp_all add: saveProfile_def resetProfile_def loadProfile_def profile_effect_def
      deliver_def deliver_error_def onSnapshot_next_def onSnapshot_error_def
      split: option.splits)

lemma listener_follows_profile_run:
  "subscription s = profile s \<Longrightarrow> subscription (run s es) = profile (run s es)"
  by (induction es arbitrary: s) (simp_all add: listener_follows_profile)

lemma familyQuery_familyCode:
  "docSnap \<in> set (familyQuery p coll) \<Longrightarrow> data_familyCode (snd docSnap) = Val (familyCode p)"
  by (simp add: familyQuery_def)

lemma deliver_in_family:
  assumes "subscription s = profile s"
  shows "held_in_family (deliver coll s)"
proof (cases "profile s")
  case None
  with assms show ?thesis
    by (simp add: deliver_def held_in_family_def)
next
  case (Some p)
  have "chore_familyCode (toChore docSnap) = familyCode p"
    if "docSnap \<in> set (familyQuery p coll)" for docSnap
    using familyQuery_familyCode [OF that] by (cases docSnap) simp
  with Some assms show ?thesis
    by (simp add: deliver_def onSnapshot_next_def held_in_family_def list_all_iff)
qed

lemma step_in_family:
  assumes "subscription s = profile s" and "held_in_family s" and "\<not> sets_profile e"
  shows "held_in_family (step s e)"
proof (cases e)
  case (AddChore env)
  with assms(2) show ?thesis
    by (simp add: held_in_family_def addChore_frame split: option.splits)
next
  case (UploadProof chore env)
  with assms(2) show ?thesis
    by (simp add: held_in_family_def uploadProof_frame split: option.splits)
next
  case (Snapshot coll)
  with assms(1) show ?thesis by (simp add: deliver_in_family)
qed (use assms(2,3) in \<open>simp_all add: held_in_family_def resetProfile_def profile_effect_def
      deliver_error_def onSnapshot_error_def split: option.splits\<close>)

lemma run_in_family:
  "subscription s = profile s \<Longrightarrow> held_in_family s \<Longrightarrow> list_all (\<lambda>e. \<not> sets_profile e) es \<Longrightarrow>
   held_in_family (run s es)"
  by (induction es arbitrary: s) (simp_all add: listener_follows_profile step_in_family)

text \<open>
  Claim C3. Take any run from the initial state, then a snapshot delivery, then any
  events that do not set the profile. In the state reached, every chore held has the
  family code of the active profile: the listener was opened for that profile, and its
  query keeps the documents whose \<^verbatim>\<open>familyCode\<close> equals the profile's.
\<close>

theorem held_chores_family:
  assumes "s = run (step (run (initial stored coll objs) es) (Snapshot coll')) es'"
    and "list_all (\<lambda>e. \<not> sets_profile e) es'"
    and "profile s = Some p" and "c \<in> set (chores s)"
  shows "chore_familyCode c = familyCode p"
proof -
  let ?r = "run (initial stored coll objs) es"
  have listener: "subscription ?r = profile ?r"
    by (rule listener_follows_profile_run) (simp add: initial_def)
  then have "subscription (step ?r (Snapshot coll')) = profile (step ?r (Snapshot coll'))"
    by (rule listener_follows_profile)
  moreover have "held_in_family (step ?r (Snapshot coll'))"
    using listener by (simp add: deliver_in_family)
  ultimately have "held_in_family s"
    using assms(1,2) by (simp add: run_in_family)
  with assms(3,4) show ?thesis
    by (simp add: held_in_family_def list_all_iff)
qed

theorem held_chores_family_witness:
  "list_all (\<lambda>e. \<not> sets_profile e) [SnapshotError]
   \<and> profile (run (step (run (initial (Some sam) family_db []) [LoadProfile])
                     (Snapshot family_db)) [SnapshotError])
     = Some sam
   \<and> chores (run (step (run (initial (Some sam) family_db []) [LoadProfile])
                    (Snapshot family_db)) [SnapshotError])
     = [toChore (js ''c3'', mowing), toChore (js ''c1'', dishes)]
   \<and> chore_familyCode (toChore (js ''c1'', dishes)) = familyCode sam"
proof -
  let ?s = "run (step (run (initial (Some sam) family_db []) [LoadProfile])
                  (Snapshot family_db)) [SnapshotError]"
  have later: "list_all (\<lambda>e. \<not> sets_profile e) [SnapshotError]"
    by simp
  have prof: "profile ?s = Some sam"
    by (simp add: loadProfile_def profile_effect_def initial_def deliver_def
        deliver_error_def onSnapshot_next_def onSnapshot_error_def)
  have held: "chores ?s = [toChore (js ''c3'', mowing), toChore (js ''c1'', dishes)]"
    by (simp add: loadProfile_def profile_effect_def initial_def deliver_def
        deliver_error_def onSnapshot_next_def onSnapshot_error_def familyQuery_def
        family_db_def dishes_def mowing_def laundry_def sam_def)
  then have mem: "toChore (js ''c1'', dishes) \<in> set (chores ?s)"
    by simp
  show ?thesis
    using held_chores_family [OF refl later prof mem] later prof held by simp
qed

section \<open>Failures of the upload pipeline\<close>

text \<open>
  Claim C4. When the bytes cannot be fetched, the upload fails or the URL cannot be
  retrieved, no update of the collection is issued and the collection is unchanged (the
  chore keeps its status and gains no \<^verbatim>\<open>photoUrl\<close>); one alert, "Upload failed", is
  shown; and no stage has been called a second time.
\<close>

theorem upload_failure_aborts:
  assumes "profile s = Some p" and "permission_granted env"
    and "picked_asset env = Some asset"
    and "fetch_blob env = None \<or> \<not> uploadBytes_ok env \<or> getDownloadURL_result env = None"
  shows "db (uploadProof chore env s) = db s
         \<and> filter is_UpdateDoc (emitted s (uploadProof chore env s)) = []
         \<and> filter is_Alert (emitted s (uploadProof chore env s)) =
             [Alert ''Upload failed'' ''Could not upload photo right now.'']
         \<and> length (filter is_Fetch (emitted s (uploadProof chore env s))) \<le> 1
         \<and> length (filter is_UploadBytes (emitted s (uploadProof chore env s))) \<le> 1
         \<and> length (filter is_GetDownloadURL (emitted s (uploadProof chore env s))) \<le> 1"
proof (cases "fetch_blob env")
  case None
  show ?thesis
    by (simp add: uploadProof_try [OF assms(1-3)] upload_try_fetch_throws [OF None])
next
  case (Some blob)
  show ?thesis
  proof (cases "uploadBytes_ok env")
    case False
    show ?thesis
      by (simp add: uploadProof_try [OF assms(1-3)] upload_try_upload_throws [OF Some False])
  next
    case True
    with Some assms(4) have none: "getDownloadURL_result env = None" by simp
    show ?thesis
      by (simp add: uploadProof_try [OF assms(1-3)] upload_try_url_throws [OF Some True none])
  qed
qed

theorem upload_failure_aborts_witness:
  "profile sam_home = Some sam
   \<and> permission_granted (photo_env\<lparr>getDownloadURL_result := None\<rparr>)
   \<and> picked_asset (photo_env\<lparr>getDownloadURL_result := None\<rparr>) = Some (js ''file:///photo.jpg'')
   \<and> getDownloadURL_result (photo_env\<lparr>getDownloadURL_result := None\<rparr>) = None
   \<and> db (uploadProof (toChore (js ''c1'', dishes)) (photo_env\<lparr>getDownloadURL_result := None\<rparr>)
          sam_home) = family_db
   \<and> filter is_Alert
        (emitted sam_home
          (uploadProof (toChore (js ''c1'', dishes)) (photo_env\<lparr>getDownloadURL_result := None\<rparr>)
             sam_home))
      = [Alert ''Upload failed'' ''Could not upload photo right now.'']"
proof -
  let ?env = "photo_env\<lparr>getDownloadURL_result := None\<rparr>"
  have granted: "permission_granted ?env"
    by (simp add: photo_env_def)
  have picked: "picked_asset ?env = Some (js ''file:///photo.jpg'')"
    by (simp add: picked_asset_def photo_env_def)
  have fails: "fetch_blob ?env = None \<or> \<not> uploadBytes_ok ?env \<or> getDownloadURL_result ?env = None"
    by simp
  show ?thesis
    using upload_failure_aborts [OF sam_home_fields(1) granted picked fails,
        of "toChore (js ''c1'', dishes)"]
      granted picked
    by (simp add: sam_home_fields)
qed

section \<open>The update that completes a chore\<close>

text \<open>
  Claim C5. When the pipeline reaches its last stage, it issues one update, for the
  chore's id, that mentions the four fields \<^verbatim>\<open>status\<close> (completed), \<^verbatim>\<open>photoUrl\<close> (the
  retrieval URL), \<^verbatim>\<open>completedBy\<close> (the profile's display name) and \<^verbatim>\<open>completedAt\<close>, and
  no other field. When the store accepts it, the document is the old one with these
  four fields overwritten: its \<^verbatim>\<open>title\<close>, \<^verbatim>\<open>assignedTo\<close>, \<^verbatim>\<open>familyCode\<close> and \<^verbatim>\<open>createdAt\<close>
  are unchanged, the ids of the collection are unchanged, and so is every other
  document.
\<close>

theorem completion_update_frame:
  assumes "profile s = Some p" and "permission_granted env"
    and "picked_asset env = Some asset" and "fetch_blob env = Some blob"
    and "uploadBytes_ok env" and "getDownloadURL_result env = Some url"
  shows "filter is_UpdateDoc (emitted s (uploadProof chore env s)) =
           [UpdateDoc (chore_id chore)
              \<lparr> upd_title = None, upd_assignedTo = None, upd_familyCode = None,
                upd_status = Some (Val Completed),
                upd_photoUrl = Some (Val url),
                upd_completedBy = Some (Val (displayName p)),
                upd_createdAt = None,
                upd_completedAt = Some (Val (upload_serverTimestamp env)) \<rparr>]
         \<and> (\<forall>d. updateDoc_ok env \<and> map_of (db s) (chore_id chore) = Some d \<longrightarrow>
               (\<exists>d'. map_of (db (uploadProof chore env s)) (chore_id chore) = Some d'
                  \<and> d' = d\<lparr> data_status := Val Completed,
                             data_photoUrl := Val url,
                             data_completedBy := Val (displayName p),
                             data_completedAt := Val (upload_serverTimestamp env) \<rparr>
                  \<and> data_title d' = data_title d
                  \<and> data_assignedTo d' = data_assignedTo d
                  \<and> data_familyCode d' = data_familyCode d
                  \<and> data_createdAt d' = data_createdAt d)
               \<and> map fst (db (uploadProof chore env s)) = map fst (db s)
               \<and> (\<forall>j. j \<noteq> chore_id chore \<longrightarrow>
                     map_of (db (uploadProof chore env s)) j = map_of (db s) j))"
proof -
  note reach = uploadProof_try [OF assms(1-3)] upload_try_reaches_update [OF assms(4-6)]
  have issued: "filter is_UpdateDoc (emitted s (uploadProof chore env s)) =
             [UpdateDoc (chore_id chore) (completion p url (upload_serverTimestamp env))]"
    by (simp add: reach Let_def split: option.splits)
  have stored: "map_of (db (uploadProof chore env s)) (chore_id chore) =
             Some (merge_fields d (completion p url (upload_serverTimestamp env)))
           \<and> map fst (db (uploadProof chore env s)) = map fst (db s)
           \<and> (\<forall>j. j \<noteq> chore_id chore \<longrightarrow>
                 map_of (db (uploadProof chore env s)) j = map_of (db s) j)"
    if "updateDoc_ok env \<and> map_of (db s) (chore_id chore) = Some d" for d
    using that
    by (simp add: reach Let_def updateDoc_def AList.update_conv' keys_update_present)
  show ?thesis
  proof (intro conjI allI impI)
    show "filter is_UpdateDoc (emitted s (uploadProof chore env s)) =
           [UpdateDoc (chore_id chore)
              \<lparr> upd_title = None, upd_assignedTo = None, upd_familyCode = None,
                upd_status = Some (Val Completed),
                upd_photoUrl = Some (Val url),
                upd_completedBy = Some (Val (displayName p)),
                upd_createdAt = None,
                upd_completedAt = Some (Val (upload_serverTimestamp env)) \<rparr>]"
      using issued by (simp add: completion_def)
  next
    fix d assume h: "updateDoc_ok env \<and> map_of (db s) (chore_id chore) = Some d"
    show "\<exists>d'. map_of (db (uploadProof chore env s)) (chore_id chore) = Some d'
              \<and> d' = d\<lparr> data_status := Val Completed, data_photoUrl := Val url,
                         data_completedBy := Val (displayName p),
                         data_completedAt := Val (upload_serverTimestamp env) \<rparr>
              \<and> data_title d' = data_title d
              \<and> data_assignedTo d' = data_assignedTo d
              \<and> data_familyCode d' = data_familyCode d
              \<and> data_createdAt d' = data_createdAt d"
      using stored [OF h] by (simp add: merge_completion)
    show "map fst (db (uploadProof chore env s)) = map fst (db s)"
      using stored [OF h] by simp
    fix j assume "j \<noteq> chore_id chore"
    then show "map_of (db (uploadProof chore env s)) j = map_of (db s) j"
      using stored [OF h] by simp
  qed
qed

theorem completion_update_frame_witness:
  "profile sam_home = Some sam \<and> permission_granted photo_env
   \<and> picked_asset photo_env = Some (js ''file:///photo.jpg'')
   \<and> fetch_blob photo_env = Some [255, 216, 255] \<and> uploadBytes_ok photo_env
   \<and> getDownloadURL_result photo_env = Some (js ''https://storage.example/c1'')
   \<and> updateDoc_ok photo_env \<and> map_of (db sam_home) (js ''c1'') = Some dishes
   \<and> map_of (db (uploadProof (toChore (js ''c1'', dishes)) photo_env sam_home)) (js ''c1'')
       = Some (dishes\<lparr> data_status := Val Completed,
                       data_photoUrl := Val (js ''https://storage.example/c1''),
                       data_completedBy := Val (js ''Sam''),
                       data_completedAt := Val 200 \<rparr>)
   \<and> map fst (db (uploadProof (toChore (js ''c1'', dishes)) photo_env sam_home))
       = [js ''c1'', js ''c2'', js ''c3'']"
proof -
  have env: "permission_granted photo_env" "fetch_blob photo_env = Some [255, 216, 255]"
    "uploadBytes_ok photo_env"
    "getDownloadURL_result photo_env = Some (js ''https://storage.example/c1'')"
    "updateDoc_ok photo_env" "upload_serverTimestamp photo_env = 200"
    by (simp_all add: photo_env_def)
  have there: "map_of (db sam_home) (js ''c1'') = Some dishes"
    and keys: "map fst (db sam_home) = [js ''c1'', js ''c2'', js ''c3'']"
    by (simp_all add: sam_home_fields family_db_def)
  have name: "displayName sam = js ''Sam''"
    by (simp add: sam_def)
  show ?thesis
    using completion_update_frame [OF sam_home_fields(1) env(1) photo_env_picked env(2-4),
        where chore = "toChore (js ''c1'', dishes)"]
      env there keys name photo_env_picked sam_home_fields(1)
    by simp
qed

section \<open>Creating a chore\<close>

text \<open>
  Claim C6. With an active profile, and a title and an assignee that are not blank once
  trimmed, \<^verbatim>\<open>addChore\<close> issues one \<^verbatim>\<open>addDoc\<close>, for a document with the trimmed title and
  assignee, the profile's family code, the status pending and a null \<^verbatim>\<open>photoUrl\<close>, and no
  update; when the store accepts it under a new id, the collection is the old one with
  this one document added (and unchanged when the store rejects it). When the title or
  the assignee is blank once trimmed, no write is issued and the collection is unchanged.
  Here the trimmed title (assignee) is the title (assignee) without the white space at
  its ends, and it is blank once trimmed exactly when it is made of white space only.
\<close>

theorem addChore_writes_one:
  assumes "profile s = Some p"
  shows "(trim (newChoreTitle s) \<noteq> [] \<and> trim (assignee s) \<noteq> [] \<longrightarrow>
            filter is_AddDoc (emitted s (addChore env s)) =
              [AddDoc \<lparr> data_title = Val (trim (newChoreTitle s)),
                        data_assignedTo = Val (trim (assignee s)),
                        data_familyCode = Val (familyCode p),
                        data_status = Val Pending,
                        data_photoUrl = Null,
                        data_completedBy = Undefined,
                        data_createdAt = Val (add_serverTimestamp env),
                        data_completedAt = Undefined \<rparr>]
            \<and> filter is_UpdateDoc (emitted s (addChore env s)) = []
            \<and> (\<forall>newId. addDoc_result env = Some newId \<and> newId \<notin> fst ` set (db s) \<longrightarrow>
                  db (addChore env s) =
                    db s @ [(newId,
                      \<lparr> data_title = Val (trim (newChoreTitle s)),
                        data_assignedTo = Val (trim (assignee s)),
                        data_familyCode = Val (familyCode p),
                        data_status = Val Pending,
                        data_photoUrl = Null,
                        data_completedBy = Undefined,
                        data_createdAt = Val (add_serverTimestamp env),
                        data_completedAt = Undefined \<rparr>)])
            \<and> (addDoc_result env = None \<longrightarrow> db (addChore env s) = db s))
         \<and> (trim (newChoreTitle s) = [] \<or> trim (assignee s) = [] \<longrightarrow>
              db (addChore env s) = db s
              \<and> filter is_AddDoc (emitted s (addChore env s)) = []
              \<and> filter is_UpdateDoc (emitted s (addChore env s)) = [])
         \<and> trimmed_of (newChoreTitle s) (trim (newChoreTitle s))
         \<and> trimmed_of (assignee s) (trim (assignee s))
         \<and> (trim (newChoreTitle s) = [] \<longleftrightarrow> list_all is_space (newChoreTitle s))
         \<and> (trim (assignee s) = [] \<longleftrightarrow> list_all is_space (assignee s))"
proof -
  have writes: "(trim (newChoreTitle s) \<noteq> [] \<and> trim (assignee s) \<noteq> [] \<longrightarrow>
            filter is_AddDoc (emitted s (addChore env s)) =
              [AddDoc \<lparr> data_title = Val (trim (newChoreTitle s)),
                        data_assignedTo = Val (trim (assignee s)),
                        data_familyCode = Val (familyCode p),
                        data_status = Val Pending,
                        data_photoUrl = Null,
                        data_completedBy = Undefined,
                        data_createdAt = Val (add_serverTimestamp env),
                        data_completedAt = Undefined \<rparr>]
            \<and> filter is_UpdateDoc (emitted s (addChore env s)) = []
            \<and> (\<forall>newId. addDoc_result env = Some newId \<and> newId \<notin> fst ` set (db s) \<longrightarrow>
                  db (addChore env s) =
                    db s @ [(newId,
                      \<lparr> data_title = Val (trim (newChoreTitle s)),
                        data_assignedTo = Val (trim (assignee s)),
                        data_familyCode = Val (familyCode p),
                        data_status = Val Pending,
                        data_photoUrl = Null,
                        data_completedBy = Undefined,
                        data_createdAt = Val (add_serverTimestamp env),
                        data_completedAt = Undefined \<rparr>)])
            \<and> (addDoc_result env = None \<longrightarrow> db (addChore env s) = db s))
         \<and> (trim (newChoreTitle s) = [] \<or> trim (assignee s) = [] \<longrightarrow>
              db (addChore env s) = db s
              \<and> filter is_AddDoc (emitted s (addChore env s)) = []
              \<and> filter is_UpdateDoc (emitted s (addChore env s)) = [])"
  proof (cases "trim (newChoreTitle s) = [] \<or> trim (assignee s) = []")
    case True
    with assms have "addChore env s =
        emit [Alert ''Missing info'' ''Add a chore title and who it is for.''] s"
      by (simp add: addChore_def)
    with True show ?thesis
      by auto
  next
    case False
    show ?thesis
    proof (cases "addDoc_result env")
      case None
      with assms False show ?thesis
        by (simp add: addChore_def new_chore_def Let_def)
    next
      case (Some newId)
      with assms False show ?thesis
        by (simp add: addChore_def new_chore_def addDoc_def Let_def update_fresh emitted_def)
    qed
  qed
  show ?thesis
    using writes trim_trimmed [of "newChoreTitle s"] trim_trimmed [of "assignee s"]
      trim_blank [of "newChoreTitle s"] trim_blank [of "assignee s"]
    by blast
qed

theorem addChore_writes_one_witness:
  "profile mum_form = Some mum
   \<and> newChoreTitle mum_form = 0xA0 # js ''Do dishes'' @ [0x2028]
   \<and> assignee mum_form = js ''sam ''
   \<and> trim (newChoreTitle mum_form) = js ''Do dishes''
   \<and> trim (assignee mum_form) = js ''sam''
   \<and> addDoc_result mum_env = Some (js ''c1'') \<and> js ''c1'' \<notin> fst ` set (db mum_form)
   \<and> db (addChore mum_env mum_form)
       = [(js ''c1'', dishes\<lparr>data_title := Val (js ''Do dishes'')\<rparr>)]
   \<and> trim (newChoreTitle (mum_form\<lparr>newChoreTitle := [0xA0]\<rparr>)) = []
   \<and> db (addChore mum_env (mum_form\<lparr>newChoreTitle := [0xA0]\<rparr>)) = []
   \<and> filter is_AddDoc
        (emitted (mum_form\<lparr>newChoreTitle := [0xA0]\<rparr>)
           (addChore mum_env (mum_form\<lparr>newChoreTitle := [0xA0]\<rparr>))) = []"
proof -
  have title_ok: "trim (newChoreTitle mum_form) = js ''Do dishes''"
    and assignee_ok: "trim (assignee mum_form) = js ''sam''"
    and blank: "trim (newChoreTitle (mum_form\<lparr>newChoreTitle := [0xA0]\<rparr>)) = []"
    by (simp_all add: mum_form_fields trim_def is_space_def js_def)
  have filled: "js ''Do dishes'' \<noteq> []" "js ''sam'' \<noteq> []"
    by (simp_all add: js_def)
  have env: "addDoc_result mum_env = Some (js ''c1'')" "add_serverTimestamp mum_env = 100"
    by (simp_all add: mum_env_def)
  have code: "familyCode mum = js ''abc12''"
    by (simp add: mum_def)
  have prof: "profile (mum_form\<lparr>newChoreTitle := [0xA0]\<rparr>) = Some mum"
    by (simp add: mum_form_fields)
  show ?thesis
    using addChore_writes_one [OF mum_form_fields(1), of mum_env]
      addChore_writes_one [OF prof, of mum_env]
      title_ok assignee_ok blank filled env code
    by (simp add: mum_form_fields dishes_def)
qed

section \<open>Permission denied\<close>

text \<open>
  Claim C7. With an active profile, when the permission is denied the pipeline makes two
  calls, the permission request and the alert "Permission needed", and nothing else: no
  upload, no write; the collection and the objects in storage are unchanged.
\<close>

theorem permission_denied_stops:
  assumes "profile s = Some p" and "\<not> permission_granted env"
  shows "emitted s (uploadProof chore env s) =
           [RequestMediaLibraryPermissions,
            Alert ''Permission needed'' ''We need access to your photos.'']
         \<and> db (uploadProof chore env s) = db s
         \<and> bucket (uploadProof chore env s) = bucket s"
  using assms by (simp add: uploadProof_def Let_def)

theorem permission_denied_stops_witness:
  "profile sam_home = Some sam
   \<and> \<not> permission_granted (photo_env\<lparr>permission_granted := False\<rparr>)
   \<and> emitted sam_home
        (uploadProof (toChore (js ''c1'', dishes)) (photo_env\<lparr>permission_granted := False\<rparr>)
           sam_home)
      = [RequestMediaLibraryPermissions,
         Alert ''Permission needed'' ''We need access to your photos.'']
   \<and> db (uploadProof (toChore (js ''c1'', dishes)) (photo_env\<lparr>permission_granted := False\<rparr>)
          sam_home) = family_db"
proof -
  have denied: "\<not> permission_granted (photo_env\<lparr>permission_granted := False\<rparr>)"
    by simp
  show ?thesis
    using permission_denied_stops [OF sam_home_fields(1) denied, of "toChore (js ''c1'', dishes)"]
    by (simp add: sam_home_fields)
qed

section \<open>The path in object storage\<close>

text \<open>
  Claim C8, as stated: the path of the uploaded object is exactly
  \<^verbatim>\<open>choreProofs/{familyCode}/{choreId}-{uploadTimestamp}\<close>. It is not: the source ends
  the path with \<^verbatim>\<open>.jpg\<close>.
\<close>

theorem uploaded_object_path_counterexample:
  "storageRef sam (toChore (js ''c1'', dishes)) 1700000000123
     \<noteq> spec_storage_path (familyCode sam) (chore_id (toChore (js ''c1'', dishes))) 1700000000123"
  by (simp add: storageRef_def spec_storage_path_def)

text \<open>
  Claim C8, amended. Once the bytes of the picked image are there, the pipeline calls
  \<^verbatim>\<open>uploadBytes\<close> once, with the path
  \<^verbatim>\<open>choreProofs/{familyCode}/{choreId}-{uploadTimestamp}.jpg\<close> made of the profile's
  family code, the chore's id and the decimal digits of \<^verbatim>\<open>Date.now()\<close>; when the
  upload succeeds, the bytes are in storage under that path.
\<close>

theorem uploaded_object_path:
  assumes "profile s = Some p" and "permission_granted env"
    and "picked_asset env = Some asset" and "fetch_blob env = Some blob"
  shows "filter is_UploadBytes (emitted s (uploadProof chore env s)) =
           [UploadBytes (spec_storage_path (familyCode p) (chore_id chore) (date_now env)
                           @ js ''.jpg'') blob]
         \<and> (uploadBytes_ok env \<longrightarrow>
              map_of (bucket (uploadProof chore env s))
                (spec_storage_path (familyCode p) (chore_id chore) (date_now env) @ js ''.jpg'')
                = Some blob)"
proof -
  have path: "storageRef p chore (date_now env) =
      spec_storage_path (familyCode p) (chore_id chore) (date_now env) @ js ''.jpg''"
    by (simp add: storageRef_def spec_storage_path_def)
  note start = uploadProof_try [OF assms(1-3)]
  show ?thesis
  proof (cases "uploadBytes_ok env")
    case False
    show ?thesis
      by (simp add: start upload_try_upload_throws [OF assms(4) False] path False)
  next
    case True
    show ?thesis
    proof (cases "getDownloadURL_result env")
      case None
      show ?thesis
        by (simp add: start upload_try_url_throws [OF assms(4) True None] path
            AList.update_conv')
    next
      case (Some url)
      show ?thesis
        by (simp add: start upload_try_reaches_update [OF assms(4) True Some] path Let_def
            AList.update_conv' split: option.splits)
    qed
  qed
qed

theorem uploaded_object_path_witness:
  "profile sam_home = Some sam \<and> permission_granted photo_env
   \<and> picked_asset photo_env = Some (js ''file:///photo.jpg'')
   \<and> fetch_blob photo_env = Some [255, 216, 255] \<and> uploadBytes_ok photo_env
   \<and> filter is_UploadBytes
        (emitted sam_home (uploadProof (toChore (js ''c1'', dishes)) photo_env sam_home))
      = [UploadBytes (js ''choreProofs/abc12/c1-1700000000123.jpg'') [255, 216, 255]]
   \<and> map_of (bucket (uploadProof (toChore (js ''c1'', dishes)) photo_env sam_home))
        (js ''choreProofs/abc12/c1-1700000000123.jpg'') = Some [255, 216, 255]"
proof -
  have env: "permission_granted photo_env" "fetch_blob photo_env = Some [255, 216, 255]"
    "uploadBytes_ok photo_env" "date_now photo_env = 1700000000123"
    by (simp_all add: photo_env_def)
  have path: "spec_storage_path (familyCode sam) (js ''c1'') 1700000000123 @ js ''.jpg''
      = js ''choreProofs/abc12/c1-1700000000123.jpg''"
    by (simp add: spec_storage_path_def sam_def string_of_nat.simps js_def)
  show ?thesis
    using uploaded_object_path [OF sam_home_fields(1) env(1) photo_env_picked env(2),
        of "toChore (js ''c1'', dishes)"]
      env photo_env_picked path
    by (simp add: sam_home_fields)
qed

section \<open>A delivery error\<close>

text \<open>
  Claim C9. The error callback of the listener leaves the chores held as they are, logs
  the error and shows one alert, "Sync error"; \<open>loadingChores\<close> is cleared, so that the
  list held is what the view shows. The same holds for the error as an event of a run.
\<close>

theorem subscription_error_keeps_chores:
  "chores (onSnapshot_error s) = chores s
   \<and> emitted s (onSnapshot_error s) =
       [ConsoleError ''Failed to subscribe to chores'',
        Alert ''Sync error'' ''Could not subscribe to chores updates.'']
   \<and> loadingChores (onSnapshot_error s) = False
   \<and> chores (step s SnapshotError) = chores s"
  by (simp add: onSnapshot_error_def deliver_error_def emitted_def emit_def
      split: option.splits)

theorem subscription_error_keeps_chores_witness:
  "chores (step (step sam_home (Snapshot family_db)) SnapshotError)
     = [toChore (js ''c3'', mowing), toChore (js ''c1'', dishes)]"
proof -
  have held: "chores (step sam_home (Snapshot family_db))
      = [toChore (js ''c3'', mowing), toChore (js ''c1'', dishes)]"
    by (simp add: sam_home_fields deliver_def onSnapshot_next_def familyQuery_def
        family_db_def dishes_def mowing_def laundry_def sam_def)
  show ?thesis
    using subscription_error_keeps_chores [of "step sam_home (Snapshot family_db)"] held
    by simp
qed

section \<open>The default title\<close>

text \<open>
  Claim C10, as stated: every chore held has a non-empty title. It has not: the
  operator \<^verbatim>\<open>??\<close> replaces a missing or null title only, and a document whose title is
  the empty string is held with the empty title.
\<close>

theorem untitled_default_counterexample:
  "map title (chores (onSnapshot_next [(js ''c1'', dishes\<lparr>data_title := Val []\<rparr>)] sam_home))
     = [[]]"
  by (simp add: onSnapshot_next_def)

text \<open>
  Claim C10, amended. A missing or null title becomes "Untitled chore" and a title that
  is there is kept as it is; so every chore held after a delivery has a non-empty title
  when no document delivered has the empty string as its title.
\<close>

theorem untitled_default:
  "(data_title d = Undefined \<or> data_title d = Null \<longrightarrow>
      title (toChore (i, d)) = js ''Untitled chore'')
   \<and> (\<forall>t. data_title d = Val t \<longrightarrow> title (toChore (i, d)) = t)
   \<and> ((\<forall>docSnap \<in> set docs. data_title (snd docSnap) \<noteq> Val [])
        \<and> c \<in> set (chores (onSnapshot_next docs s)) \<longrightarrow> title c \<noteq> [])"
proof -
  have "title c \<noteq> []"
    if titles: "\<forall>docSnap \<in> set docs. data_title (snd docSnap) \<noteq> Val []"
      and held: "c \<in> set (chores (onSnapshot_next docs s))"
  proof -
    from held obtain j e where mem: "(j, e) \<in> set docs" and c: "c = toChore (j, e)"
      by (auto simp add: onSnapshot_next_def)
    from titles mem have "data_title e \<noteq> Val []"
      by auto
    then show ?thesis
      using c by (cases "data_title e") simp_all
  qed
  then show ?thesis
    by auto
qed

theorem untitled_default_witness:
  "list_all (\<lambda>docSnap. data_title (snd docSnap) \<noteq> Val [])
     [(js ''c1'', dishes), (js ''c4'', mowing\<lparr>data_title := Undefined\<rparr>)]
   \<and> chores (onSnapshot_next [(js ''c1'', dishes), (js ''c4'', mowing\<lparr>data_title := Undefined\<rparr>)]
        sam_home)
      = [toChore (js ''c1'', dishes), toChore (js ''c4'', mowing\<lparr>data_title := Undefined\<rparr>)]
   \<and> title (toChore (js ''c4'', mowing\<lparr>data_title := Undefined\<rparr>)) = js ''Untitled chore''
   \<and> title (toChore (js ''c4'', mowing\<lparr>data_title := Undefined\<rparr>)) \<noteq> []
   \<and> title (toChore (js ''c1'', dishes)) = js ''Dishes''"
proof -
  let ?docs = "[(js ''c1'', dishes), (js ''c4'', mowing\<lparr>data_title := Undefined\<rparr>)]"
  have titles: "\<forall>docSnap \<in> set ?docs. data_title (snd docSnap) \<noteq> Val []"
    by (simp add: dishes_def)
  have held: "chores (onSnapshot_next ?docs sam_home)
      = [toChore (js ''c1'', dishes), toChore (js ''c4'', mowing\<lparr>data_title := Undefined\<rparr>)]"
    by (simp add: onSnapshot_next_def)
  then have mem: "toChore (js ''c4'', mowing\<lparr>data_title := Undefined\<rparr>)
      \<in> set (chores (onSnapshot_next ?docs sam_home))"
    by simp
  have stored: "data_title dishes = Val (js ''Dishes'')"
    by (simp add: dishes_def)
  have absent: "data_title (mowing\<lparr>data_title := Undefined\<rparr>) = Undefined"
    by simp
  from untitled_default [of "mowing\<lparr>data_title := Undefined\<rparr>" "js ''c4''" ?docs
      "toChore (js ''c4'', mowing\<lparr>data_title := Undefined\<rparr>)" sam_home] titles mem absent
  have a: "title (toChore (js ''c4'', mowing\<lparr>data_title := Undefined\<rparr>)) = js ''Untitled chore''"
    and b: "title (toChore (js ''c4'', mowing\<lparr>data_title := Undefined\<rparr>)) \<noteq> []"
    by blast+
  from untitled_default [of dishes "js ''c1''" ?docs
      "toChore (js ''c4'', mowing\<lparr>data_title := Undefined\<rparr>)" sam_home] stored
  have c: "title (toChore (js ''c1'', dishes)) = js ''Dishes''"
    by blast
  show ?thesis
    using a b c titles held by simp
qed

end
